theory Spec2Isabelle
  imports Main
begin

unbundle bit_operations_syntax

section \<open>Errors (include/triton/lang/code_gen.h, lines 35-37)\<close>

text \<open>
  Both helpers of the header throw \<^verbatim>\<open>std::runtime_error\<close>. A thrown C++ exception is a value
  with its class and the text that \<^verbatim>\<open>what()\<close> returns; a function that throws returns
  \<open>Inl\<close> of it.
\<close>

datatype exception_class = Runtime_error | Logic_error | Bad_alloc

datatype exception = Exception (class_of: exception_class) (what: string)

definition should_not_happen :: "string \<Rightarrow> exception + unit" where
  "should_not_happen suffix = Inl (Exception Runtime_error (''internal compiler error: '' @ suffix))"

definition error_not_implemented :: "string \<Rightarrow> exception + unit" where
  "error_not_implemented msg = Inl (Exception Runtime_error msg)"

section \<open>Scopes (code_gen.h, lines 44-47)\<close>

text \<open>
  \<^verbatim>\<open>ir::type*\<close> and \<^verbatim>\<open>ir::value*\<close> are opaque handles. A \<^verbatim>\<open>std::map\<close> is a partial map;
  \<open>bind_type\<close> and \<open>bind_value\<close> are the assignments \<^verbatim>\<open>types[name] = t\<close> and
  \<^verbatim>\<open>values[name] = v\<close>.
\<close>

type_synonym ir_type = nat
type_synonym ir_value = nat

record scope =
  types :: "string \<rightharpoonup> ir_type"
  "values" :: "string \<rightharpoonup> ir_value"

definition bind_type :: "string \<Rightarrow> ir_type \<Rightarrow> scope \<Rightarrow> scope" where
  "bind_type name t sc = sc\<lparr>types := (types sc)(name \<mapsto> t)\<rparr>"

definition bind_value :: "string \<Rightarrow> ir_value \<Rightarrow> scope \<Rightarrow> scope" where
  "bind_value name v sc = sc\<lparr>values := (values sc)(name \<mapsto> v)\<rparr>"

section \<open>The tutorial's block size (python/tutorials/02-fused-softmax.ipynb)\<close>

text \<open>
  Python integers are unbounded: \<open>int\<close>. \<^verbatim>\<open>n >> k\<close> is \<open>drop_bit k n\<close> (floor division by
  \<open>2 ^ k\<close>, also on negative numbers) and \<^verbatim>\<open>|\<close> is \<open>OR\<close>.
\<close>

definition next_power_of_2 :: "int \<Rightarrow> int" where
  "next_power_of_2 n0 =
     (let n = n0 - 1;
          n = n OR drop_bit 1 n;
          n = n OR drop_bit 2 n;
          n = n OR drop_bit 4 n;
          n = n OR drop_bit 8 n;
          n = n OR drop_bit 16 n;
          n = n + 1
      in n)"

section \<open>The abstract syntax tree\<close>

text \<open>
  Modelled from the spec: the header includes \<^verbatim>\<open>ast.h\<close>, which is not among the sources. The
  node variants are the twenty classes that the \<^verbatim>\<open>Visit*\<close> methods of the header name (lines
  61-83 and 133-153) and that section 3 of the specification lists; the fields are the
  children and operators that section 4 speaks of. An operator the specification does not
  single out is \<open>Other_unary\<close> or \<open>Other_binary\<close> with its spelling; \<open>Assign\<close> stands for
  the assignment family.
\<close>

datatype unary_operator =
  Deref | Minus | Prefix_inc | Prefix_dec | Postfix_inc | Postfix_dec | Other_unary string

datatype binary_operator = Assign | Member | Index | Other_binary string

datatype node =
    BinaryOp binary_operator node node
  | UnaryOp unary_operator node
  | TransOp node
  | ConditionalOp node node node
  | FuncCall string "node list"
  | Object string
  | Enumerator string
  | Identifier string
  | Constant int
  | TempVar nat
  | Declaration node "node list"
  | EmptyStmt
  | IfStmt node node node
  | ForStmt node node node node
  | JumpStmt string
  | ReturnStmt "node list"
  | LabelStmt string
  | CompoundStmt "node list"
  | FuncDef string "node list" node
  | TranslationUnit "node list"

section \<open>The state of a generation\<close>

text \<open>
  Modelled from the spec: the IR classes are only forward-declared in the header (lines
  13-18), and section 3 keeps them opaque. The module is the sequence of the instructions
  emitted so far; a store, with its address and the value it stores, is told apart from every
  other instruction, which is its opcode and operands.
\<close>

datatype instr = Store (store_address: ir_value) (stored_value: ir_value) | Instr string "ir_value list"

text \<open>
  Modelled from the spec: \<open>gen_scopes\<close>, the scope stack \<^verbatim>\<open>scopes_\<close>, which the header has only
  as a comment (line 123); the innermost scope is the head of the list (section 3). The other
  fields are the members that the header declares (lines 116-124 and 162-164), in one state
  since the generator owns its one assigner \<^verbatim>\<open>assign_\<close>: \<open>gen_ret\<close> is \<^verbatim>\<open>Generator::ret_\<close>,
  \<open>gen_mod\<close> is what \<^verbatim>\<open>mod_\<close> points to, \<open>assign_ret\<close> and \<open>assign_rhs\<close> are
  \<^verbatim>\<open>LValAssigner::ret_\<close> and \<^verbatim>\<open>rhs_\<close>.
\<close>

record generator =
  gen_ret :: ir_value
  gen_mod :: "instr list"
  gen_scopes :: "scope list"
  assign_ret :: ir_value
  assign_rhs :: ir_value

text \<open>
  A method either returns a value or throws, and changes the state in both cases: nothing
  in the header catches an exception, so \<open>seq\<close> hands the first one through.
\<close>

type_synonym 'a comp = "generator \<Rightarrow> (exception + 'a) \<times> generator"

definition seq :: "'a comp \<Rightarrow> ('a \<Rightarrow> 'b comp) \<Rightarrow> 'b comp" where
  "seq c f s = (case c s of (Inl e, s') \<Rightarrow> (Inl e, s') | (Inr a, s') \<Rightarrow> f a s')"

definition throwing :: "exception + unit \<Rightarrow> unit comp" where
  "throwing r s = (r, s)"

text \<open>
  Modelled from the spec: \<^verbatim>\<open>set_ret\<close> is declared on line 49 without a body; it writes the
  "last produced value" slot of section 2. \<open>get_ret\<close> reads that slot.
\<close>

definition set_ret :: "ir_value \<Rightarrow> unit comp" where
  "set_ret v s = (Inr (), s\<lparr>gen_ret := v\<rparr>)"

definition get_ret :: "unit \<Rightarrow> ir_value comp" where
  "get_ret u s = (Inr (gen_ret s), s)"

text \<open>The reads and writes of the assigner's members in \<^verbatim>\<open>GenExpr\<close> (lines 155-159).\<close>

definition set_rhs :: "ir_value \<Rightarrow> unit comp" where
  "set_rhs v s = (Inr (), s\<lparr>assign_rhs := v\<rparr>)"

definition with_rhs :: "(ir_value \<Rightarrow> 'a comp) \<Rightarrow> 'a comp" where
  "with_rhs f s = f (assign_rhs s) s"

definition get_assign_ret :: "unit \<Rightarrow> ir_value comp" where
  "get_assign_ret u s = (Inr (assign_ret s), s)"

section \<open>The scope stack\<close>

text \<open>
  Modelled from the spec: \<^verbatim>\<open>pushScope\<close> and \<^verbatim>\<open>popScope\<close> are declared on lines 112-113 without
  bodies. Section 3: a new scope is pushed on entry and popped on exit. \<^verbatim>\<open>popScope\<close> on an
  empty stack leaves it empty here; \<open>scoped\<close> never calls it so.
\<close>

definition pushScope :: "generator \<Rightarrow> generator" where
  "pushScope s = s\<lparr>gen_scopes := \<lparr>types = Map.empty, values = Map.empty\<rparr> # gen_scopes s\<rparr>"

definition popScope :: "generator \<Rightarrow> generator" where
  "popScope s = s\<lparr>gen_scopes := tl (gen_scopes s)\<rparr>"

text \<open>
  Modelled from the spec: the bracket of sections 3 and 4.5 around a compound statement or a
  function body, with the scope-exit guarantee that section 3 asks for: the pop runs whether
  the body returns or throws, and the body's outcome is handed on.
\<close>

definition scoped :: "'a comp \<Rightarrow> 'a comp" where
  "scoped body s = (case body (pushScope s) of (r, s') \<Rightarrow> (r, popScope s'))"

text \<open>
  Modelled from the spec: the scope lookup of section 3, which walks outward through the
  enclosing scopes. A name bound nowhere is an internal error (section 4.1).
\<close>

fun lookup :: "string \<Rightarrow> scope list \<Rightarrow> ir_value option" where
  "lookup name [] = None"
| "lookup name (sc # outer) =
     (case values sc name of Some v \<Rightarrow> Some v | None \<Rightarrow> lookup name outer)"

definition bound_storage :: "string \<Rightarrow> ir_value comp" where
  "bound_storage name s =
     (case lookup name (gen_scopes s) of
        Some v \<Rightarrow> (Inr v, s)
      | None \<Rightarrow> seq (throwing (should_not_happen (''unresolved identifier '' @ name))) get_ret s)"

section \<open>The lvalue assigner\<close>

text \<open>
  Modelled from the spec: the four methods of \<^verbatim>\<open>LValAssigner\<close> that the header declares on lines
  133-136 without bodies, after section 4.3. Each resolves the storage location and emits a
  store of the value that \<^verbatim>\<open>GenExpr\<close> left in \<^verbatim>\<open>rhs_\<close>, read on entry, and leaves that value in
  \<^verbatim>\<open>ret_\<close> (\<open>store v addr\<close>, the value first). A method takes the lowering of a child by the
  generator (\<^verbatim>\<open>gen_->VisitExpr\<close>) as a computation. A unary operator other than dereference and
  a binary operator other than member or index access is a non-lvalue used as an assignment
  target, an internal error by sections 4.3 and 7.
\<close>

definition store :: "ir_value \<Rightarrow> ir_value \<Rightarrow> unit comp" where
  "store v addr s = (Inr (), s\<lparr>gen_mod := gen_mod s @ [Store addr v], assign_ret := v\<rparr>)"

definition LValAssigner_VisitIdentifier :: "string \<Rightarrow> unit comp" where
  "LValAssigner_VisitIdentifier name = with_rhs (\<lambda>rhs. seq (bound_storage name) (store rhs))"

definition LValAssigner_VisitObject :: "string \<Rightarrow> unit comp" where
  "LValAssigner_VisitObject name = with_rhs (\<lambda>rhs. seq (bound_storage name) (store rhs))"

definition LValAssigner_VisitUnaryOp :: "unary_operator \<Rightarrow> unit comp \<Rightarrow> unit comp" where
  "LValAssigner_VisitUnaryOp op visit_operand =
     (if op = Deref
      then with_rhs (\<lambda>rhs. seq (seq visit_operand get_ret) (store rhs))
      else throwing (should_not_happen ''unaryop cannot be lvalue''))"

definition LValAssigner_VisitBinaryOp ::
  "(binary_operator \<Rightarrow> ir_value \<Rightarrow> unit comp \<Rightarrow> ir_value comp)
    \<Rightarrow> binary_operator \<Rightarrow> unit comp \<Rightarrow> unit comp \<Rightarrow> unit comp" where
  "LValAssigner_VisitBinaryOp address op visit_lhs visit_rhs =
     (if op = Member \<or> op = Index
      then with_rhs (\<lambda>rhs.
             seq (seq (seq visit_lhs get_ret) (\<lambda>base. address op base visit_rhs)) (store rhs))
      else throwing (should_not_happen ''binaryop cannot be lvalue''))"

section \<open>The generator and the dispatch\<close>

text \<open>
  Modelled from the spec: the bodies of the generator's \<^verbatim>\<open>Visit*\<close> methods are not in the header.
  What the specification fixes is modelled: an assignment lowers its right side first and then
  goes through \<^verbatim>\<open>GenAssignOp\<close>, leaving the assigned value as the expression's value (sections
  4.1 and 4.2), and a compound statement and a function body are bracketed by \<open>scoped\<close>
  (section 4.5). Everything else a method does is a parameter, \<open>visit_other\<close>: it is given the
  node and, for each child in order, the child's lowering and the assignment to the child
  (section 2: a method may visit its children), and may run them in any order, any number of
  times, and emit what it likes. \<open>element_address\<close> is the address computation of a member
  or index access, given the operator, the lowered base and the lowering of the right operand.
\<close>

type_synonym child = "unit comp \<times> (ir_value \<Rightarrow> ir_value comp)"

record collaborators =
  visit_other :: "node \<Rightarrow> child list \<Rightarrow> unit comp"
  element_address :: "binary_operator \<Rightarrow> ir_value \<Rightarrow> unit comp \<Rightarrow> ir_value comp"

text \<open>
  Modelled from the spec: the equations of \<open>Visit\<close>, as said above, and \<^verbatim>\<open>GenAssignOp\<close> (line
  95, no body), which hands over to the assigner's \<^verbatim>\<open>GenExpr\<close> (section 4.2). The rest is the
  header: \<open>Visit\<close> is \<^verbatim>\<open>Generator::Visit\<close> (line 56) and \<open>LValAssigner_Accept\<close> is
  \<^verbatim>\<open>node->Accept(this)\<close> for the assigner, both a double dispatch on the node's class; the
  sixteen rejecting methods and \<^verbatim>\<open>GenExpr\<close> are the inline bodies of lines 138-159.
\<close>

fun Visit :: "collaborators \<Rightarrow> node \<Rightarrow> unit comp"
and LValAssigner_Accept :: "collaborators \<Rightarrow> node \<Rightarrow> unit comp"
and GenExpr :: "collaborators \<Rightarrow> node \<Rightarrow> ir_value \<Rightarrow> ir_value comp"
and GenAssignOp :: "collaborators \<Rightarrow> node \<Rightarrow> ir_value \<Rightarrow> ir_value comp"
where
  "Visit p (BinaryOp op l r) =
     (if op = Assign
      then seq (seq (Visit p r) get_ret) (\<lambda>rhs. seq (GenAssignOp p l rhs) set_ret)
      else visit_other p (BinaryOp op l r)
             [(Visit p l, \<lambda>v. GenAssignOp p l v), (Visit p r, \<lambda>v. GenAssignOp p r v)])"
| "Visit p (UnaryOp op a) = visit_other p (UnaryOp op a) [(Visit p a, \<lambda>v. GenAssignOp p a v)]"
| "Visit p (TransOp a) = visit_other p (TransOp a) [(Visit p a, \<lambda>v. GenAssignOp p a v)]"
| "Visit p (ConditionalOp c a b) =
     visit_other p (ConditionalOp c a b)
       [(Visit p c, \<lambda>v. GenAssignOp p c v), (Visit p a, \<lambda>v. GenAssignOp p a v),
        (Visit p b, \<lambda>v. GenAssignOp p b v)]"
| "Visit p (FuncCall f args) =
     visit_other p (FuncCall f args) (map (\<lambda>c. (Visit p c, \<lambda>v. GenAssignOp p c v)) args)"
| "Visit p (Object name) = visit_other p (Object name) []"
| "Visit p (Enumerator name) = visit_other p (Enumerator name) []"
| "Visit p (Identifier name) = visit_other p (Identifier name) []"
| "Visit p (Constant k) = visit_other p (Constant k) []"
| "Visit p (TempVar k) = visit_other p (TempVar k) []"
| "Visit p (Declaration obj inits) =
     visit_other p (Declaration obj inits)
       (map (\<lambda>c. (Visit p c, \<lambda>v. GenAssignOp p c v)) (obj # inits))"
| "Visit p EmptyStmt = visit_other p EmptyStmt []"
| "Visit p (IfStmt c a b) =
     visit_other p (IfStmt c a b)
       [(Visit p c, \<lambda>v. GenAssignOp p c v), (Visit p a, \<lambda>v. GenAssignOp p a v),
        (Visit p b, \<lambda>v. GenAssignOp p b v)]"
| "Visit p (ForStmt i c st b) =
     visit_other p (ForStmt i c st b)
       [(Visit p i, \<lambda>v. GenAssignOp p i v), (Visit p c, \<lambda>v. GenAssignOp p c v),
        (Visit p st, \<lambda>v. GenAssignOp p st v), (Visit p b, \<lambda>v. GenAssignOp p b v)]"
| "Visit p (JumpStmt l) = visit_other p (JumpStmt l) []"
| "Visit p (ReturnStmt es) =
     visit_other p (ReturnStmt es) (map (\<lambda>c. (Visit p c, \<lambda>v. GenAssignOp p c v)) es)"
| "Visit p (LabelStmt l) = visit_other p (LabelStmt l) []"
| "Visit p (CompoundStmt ss) =
     scoped (visit_other p (CompoundStmt ss)
               (map (\<lambda>c. (Visit p c, \<lambda>v. GenAssignOp p c v)) ss))"
| "Visit p (FuncDef f ps body) =
     scoped (visit_other p (FuncDef f ps body)
               (map (\<lambda>c. (Visit p c, \<lambda>v. GenAssignOp p c v)) (ps @ [body])))"
| "Visit p (TranslationUnit ds) =
     visit_other p (TranslationUnit ds) (map (\<lambda>c. (Visit p c, \<lambda>v. GenAssignOp p c v)) ds)"

| "LValAssigner_Accept p (BinaryOp op l r) =
     LValAssigner_VisitBinaryOp (element_address p) op (Visit p l) (Visit p r)"
| "LValAssigner_Accept p (UnaryOp op a) = LValAssigner_VisitUnaryOp op (Visit p a)"
| "LValAssigner_Accept p (Object name) = LValAssigner_VisitObject name"
| "LValAssigner_Accept p (Identifier name) = LValAssigner_VisitIdentifier name"
| "LValAssigner_Accept p (ConditionalOp c a b) =
     throwing (should_not_happen ''conditional cannot be lvalue'')"
| "LValAssigner_Accept p (FuncCall f args) =
     throwing (should_not_happen ''funccall cannot be lvalue'')"
| "LValAssigner_Accept p (TransOp a) = throwing (should_not_happen ''transop cannot be lvalue'')"
| "LValAssigner_Accept p (Enumerator name) =
     throwing (should_not_happen ''enumerator cannot be lvalue'')"
| "LValAssigner_Accept p (Constant k) = throwing (should_not_happen ''constant cannot be lvalue'')"
| "LValAssigner_Accept p (TempVar k) = throwing (should_not_happen ''tempvar cannot be lvalue'')"
| "LValAssigner_Accept p (Declaration obj inits) =
     throwing (should_not_happen ''declaration cannot be lvalue'')"
| "LValAssigner_Accept p EmptyStmt =
     throwing (should_not_happen ''empty statement cannot be lvalue'')"
| "LValAssigner_Accept p (IfStmt c a b) =
     throwing (should_not_happen ''if statement cannot be lvalue'')"
| "LValAssigner_Accept p (ForStmt i c st b) =
     throwing (should_not_happen ''for statement cannot be lvalue'')"
| "LValAssigner_Accept p (JumpStmt l) =
     throwing (should_not_happen ''jump statement cannot be lvalue'')"
| "LValAssigner_Accept p (ReturnStmt es) =
     throwing (should_not_happen ''return statement cannot be lvalue'')"
| "LValAssigner_Accept p (LabelStmt l) =
     throwing (should_not_happen ''label statement cannot be lvalue'')"
| "LValAssigner_Accept p (CompoundStmt ss) =
     throwing (should_not_happen ''compound statement cannot be lvalue'')"
| "LValAssigner_Accept p (FuncDef f ps body) =
     throwing (should_not_happen ''function definition cannot be lvalue'')"
| "LValAssigner_Accept p (TranslationUnit ds) =
     throwing (should_not_happen ''translation unit cannot be lvalue'')"

| "GenExpr p expr rhs = seq (set_rhs rhs) (\<lambda>u. seq (LValAssigner_Accept p expr) get_assign_ret)"

| "GenAssignOp p lvalue rhs = GenExpr p lvalue rhs"

section \<open>Notions the statements use\<close>

text \<open>
  The node kinds whose method in the assigner is one of the sixteen inline rejections, and the
  words by which each rejection names its construct.
\<close>

fun rejected_kind :: "node \<Rightarrow> bool" where
  "rejected_kind (BinaryOp op l r) = False"
| "rejected_kind (UnaryOp op a) = False"
| "rejected_kind (Object name) = False"
| "rejected_kind (Identifier name) = False"
| "rejected_kind n = True"

fun construct :: "node \<Rightarrow> string" where
  "construct (BinaryOp op l r) = ''binaryop''"
| "construct (UnaryOp op a) = ''unaryop''"
| "construct (TransOp a) = ''transop''"
| "construct (ConditionalOp c a b) = ''conditional''"
| "construct (FuncCall f args) = ''funccall''"
| "construct (Object name) = ''object''"
| "construct (Enumerator name) = ''enumerator''"
| "construct (Identifier name) = ''identifier''"
| "construct (Constant k) = ''constant''"
| "construct (TempVar k) = ''tempvar''"
| "construct (Declaration obj inits) = ''declaration''"
| "construct EmptyStmt = ''empty statement''"
| "construct (IfStmt c a b) = ''if statement''"
| "construct (ForStmt i c st b) = ''for statement''"
| "construct (JumpStmt l) = ''jump statement''"
| "construct (ReturnStmt es) = ''return statement''"
| "construct (LabelStmt l) = ''label statement''"
| "construct (CompoundStmt ss) = ''compound statement''"
| "construct (FuncDef f ps body) = ''function definition''"
| "construct (TranslationUnit ds) = ''translation unit''"

text \<open>The assignment targets of section 4.3 of the specification.\<close>

fun assignable :: "node \<Rightarrow> bool" where
  "assignable (Identifier name) = True"
| "assignable (Object name) = True"
| "assignable (UnaryOp op a) = (op = Deref)"
| "assignable (BinaryOp op l r) = (op = Member \<or> op = Index)"
| "assignable n = False"

text \<open>
  A small instance of the collaborators, for concrete runs: a constant and a bound identifier
  yield their value, every other method visits its children in order and stops at the first
  exception; an element's address is the base plus the lowered right operand.
\<close>

fun run_all :: "unit comp list \<Rightarrow> unit comp" where
  "run_all [] = (\<lambda>s. (Inr (), s))"
| "run_all (c # cs) = seq c (\<lambda>u. run_all cs)"

definition sample_visit_other :: "node \<Rightarrow> child list \<Rightarrow> unit comp" where
  "sample_visit_other n kids =
     (case n of
        Constant k \<Rightarrow> set_ret (nat k)
      | Identifier name \<Rightarrow> seq (bound_storage name) set_ret
      | _ \<Rightarrow> run_all (map fst kids))"

definition sample_element_address ::
  "binary_operator \<Rightarrow> ir_value \<Rightarrow> unit comp \<Rightarrow> ir_value comp" where
  "sample_element_address op base idx = seq (seq idx get_ret) (\<lambda>i s. (Inr (base + i), s))"

definition sample :: collaborators where
  "sample = \<lparr>visit_other = sample_visit_other, element_address = sample_element_address\<rparr>"

definition start :: generator where
  "start = \<lparr>gen_ret = 0, gen_mod = [],
            gen_scopes = [\<lparr>types = Map.empty,
                           values = [''a'' \<mapsto> 10, ''b'' \<mapsto> 11, ''p'' \<mapsto> 12]\<rparr>],
            assign_ret = 0, assign_rhs = 0\<rparr>"

section \<open>Properties of the error helpers\<close>

text \<open>
  C9. The message of an internal compiler error is exactly \<^verbatim>\<open>"internal compiler error: "\<close>
  followed by the suffix, and the message of a not-yet-implemented error is the given text
  with nothing added. So every internal error starts with the fixed prefix, while a
  not-yet-implemented error has no marker of its own: given a text that starts with the
  prefix, it is the very exception the internal error with that suffix raises.
\<close>

theorem error_messages:
  "should_not_happen suffix = Inl (Exception Runtime_error (''internal compiler error: '' @ suffix))
   \<and> error_not_implemented msg = Inl (Exception Runtime_error msg)
   \<and> (\<exists>e. should_not_happen suffix = Inl e
        \<and> take (length ''internal compiler error: '') (what e) = ''internal compiler error: '')
   \<and> (\<exists>e. error_not_implemented msg = Inl e \<and> what e = msg)
   \<and> error_not_implemented (''internal compiler error: '' @ suffix) = should_not_happen suffix"
  by (simp add: should_not_happen_def error_not_implemented_def)

section \<open>Properties of a scope\<close>

text \<open>
  C7. The type namespace and the value namespace of a scope are independent maps: binding a
  name to a type leaves every value binding as it was, binding a name to a value leaves every
  type binding as it was, the two bindings commute, and one name can hold a type binding and
  a value binding at once.
\<close>

theorem scope_namespaces_independent:
  "values (bind_type name t sc) = values sc
   \<and> types (bind_value name v sc) = types sc
   \<and> bind_type name t (bind_value name v sc) = bind_value name v (bind_type name t sc)
   \<and> types (bind_type name t (bind_value name v sc)) name = Some t
   \<and> values (bind_type name t (bind_value name v sc)) name = Some v"
  by (simp add: bind_type_def bind_value_def)

section \<open>Properties of the block size\<close>

lemma smear_step:
  fixes x m :: int
  assumes "\<And>k. bit x k \<longleftrightarrow> (\<exists>d<w. bit m (k + d))"
  shows "bit (x OR drop_bit w x) k \<longleftrightarrow> (\<exists>d<2 * w. bit m (k + d))"
proof
  assume "bit (x OR drop_bit w x) k"
  then consider "bit x k" | "bit x (w + k)"
    by (auto simp: bit_or_iff bit_drop_bit_eq)
  then show "\<exists>d<2 * w. bit m (k + d)"
  proof cases
    case 1
    then obtain d where "d < w" "bit m (k + d)" using assms by blast
    then show ?thesis by (intro exI[of _ d]) simp
  next
    case 2
    then obtain d where "d < w" "bit m (w + k + d)" using assms by blast
    then show ?thesis by (intro exI[of _ "w + d"]) (simp add: ac_simps)
  qed
next
  assume "\<exists>d<2 * w. bit m (k + d)"
  then obtain d where d: "d < 2 * w" "bit m (k + d)" by blast
  show "bit (x OR drop_bit w x) k"
  proof (cases "d < w")
    case True
    with d assms have "bit x k" by blast
    then show ?thesis by (simp add: bit_or_iff)
  next
    case False
    with d have "d - w < w" "bit m (w + k + (d - w))" by (simp_all add: ac_simps)
    with assms have "bit x (w + k)" by blast
    then show ?thesis by (simp add: bit_or_iff bit_drop_bit_eq)
  qed
qed

text \<open>After the five shifts, bit \<open>k\<close> is set when one of the 32 bits from \<open>k\<close> upwards was.\<close>

lemma smear_bits:
  fixes m :: int
  shows "bit (next_power_of_2 (m + 1) - 1) k \<longleftrightarrow> (\<exists>d<32. bit m (k + d))"
proof -
  define x1 where "x1 = m OR drop_bit 1 m"
  define x2 where "x2 = x1 OR drop_bit 2 x1"
  define x3 where "x3 = x2 OR drop_bit 4 x2"
  define x4 where "x4 = x3 OR drop_bit 8 x3"
  define x5 where "x5 = x4 OR drop_bit 16 x4"
  have b0: "bit m k \<longleftrightarrow> (\<exists>d<1. bit m (k + d))" for k by simp
  have b1: "bit x1 k \<longleftrightarrow> (\<exists>d<2. bit m (k + d))" for k
    unfolding x1_def using smear_step[of m 1 m k, OF b0] by simp
  have b2: "bit x2 k \<longleftrightarrow> (\<exists>d<4. bit m (k + d))" for k
    unfolding x2_def using smear_step[of x1 2 m k, OF b1] by simp
  have b3: "bit x3 k \<longleftrightarrow> (\<exists>d<8. bit m (k + d))" for k
    unfolding x3_def using smear_step[of x2 4 m k, OF b2] by simp
  have b4: "bit x4 k \<longleftrightarrow> (\<exists>d<16. bit m (k + d))" for k
    unfolding x4_def using smear_step[of x3 8 m k, OF b3] by simp
  have b5: "bit x5 k \<longleftrightarrow> (\<exists>d<32. bit m (k + d))" for k
    unfolding x5_def using smear_step[of x4 16 m k, OF b4] by simp
  have "next_power_of_2 (m + 1) - 1 = x5"
    by (simp add: next_power_of_2_def Let_def x1_def x2_def x3_def x4_def x5_def)
  then show ?thesis using b5 by simp
qed

lemma top_bit_set:
  fixes m :: int
  assumes "2 ^ h \<le> m" "m < 2 ^ Suc h"
  shows "bit m h"
proof -
  have "m div 2 ^ h = 1"
    by (rule int_div_pos_eq[where r = "m - 2 ^ h"]) (use assms in simp_all)
  then show ?thesis by (simp add: bit_iff_odd)
qed

lemma bits_above_top_clear:
  fixes m :: int
  assumes "0 \<le> m" "m < 2 ^ Suc h" "h < j"
  shows "\<not> bit m j"
proof -
  have "(2::int) ^ Suc h \<le> 2 ^ j" using assms(3) by (intro power_increasing) simp_all
  with assms have "m div 2 ^ j = 0" by (intro div_pos_pos_trivial) simp_all
  then show ?thesis by (simp add: bit_iff_odd)
qed

lemma ex_top_bit:
  fixes m :: int
  assumes "0 < m"
  shows "\<exists>h. 2 ^ h \<le> m \<and> m < 2 ^ Suc h"
proof -
  from assms have "1 \<le> nat m" by simp
  from ex_power_ivl1[of 2 "nat m", OF _ this]
  obtain h where h: "2 ^ h \<le> nat m" "nat m < 2 ^ (h + 1)" by auto
  from h(1) have "int (2 ^ h) \<le> m" using assms by linarith
  moreover from h(2) have "m < int (2 ^ (h + 1))" using assms by linarith
  ultimately show ?thesis by (intro exI[of _ h]) simp
qed

lemma next_power_of_2_above_top_bit:
  fixes m :: int
  assumes "2 ^ h \<le> m" "m < 2 ^ Suc h" "h < 32"
  shows "next_power_of_2 (m + 1) = 2 ^ Suc h"
proof -
  have m0: "0 \<le> m" using assms(1) by (rule order_trans[rotated]) simp
  have "next_power_of_2 (m + 1) - 1 = mask (Suc h)"
  proof (rule bit_eqI)
    fix k
    show "bit (next_power_of_2 (m + 1) - 1) k \<longleftrightarrow> bit (mask (Suc h) :: int) k"
    proof (cases "k \<le> h")
      case True
      then have "h - k < 32" "bit m (k + (h - k))"
        using assms top_bit_set[of h m] by simp_all
      then have "\<exists>d<32. bit m (k + d)" by blast
      with True show ?thesis by (simp add: smear_bits bit_mask_iff)
    next
      case False
      then have "\<not> bit m (k + d)" for d
        using bits_above_top_clear[of m h "k + d"] assms m0 by simp
      with False show ?thesis by (simp add: smear_bits bit_mask_iff)
    qed
  qed
  then show ?thesis by (simp add: mask_eq_exp_minus_1)
qed

text \<open>
  C10. For every integer \<open>n\<close> with \<open>1 \<le> n \<le> 2 ^ 31\<close>, \<open>next_power_of_2 n\<close> is the smallest
  power of two that is at least \<open>n\<close>: it is a power of two, it is at least \<open>n\<close>, and every
  power of two that is at least \<open>n\<close> is at least it. So it returns \<open>n\<close> itself exactly when
  \<open>n\<close> is a power of two.
\<close>

theorem next_power_of_2_smallest:
  assumes "1 \<le> n" and "n \<le> 2 ^ 31"
  shows "(\<exists>k. next_power_of_2 n = 2 ^ k \<and> n \<le> 2 ^ k \<and> (\<forall>j. n \<le> 2 ^ j \<longrightarrow> (2::int) ^ k \<le> 2 ^ j))
         \<and> (next_power_of_2 n = n \<longleftrightarrow> (\<exists>k. n = 2 ^ k))"
proof -
  have ex: "\<exists>k. next_power_of_2 n = 2 ^ k \<and> n \<le> 2 ^ k \<and> (\<forall>j. n \<le> 2 ^ j \<longrightarrow> (2::int) ^ k \<le> 2 ^ j)"
  proof (cases "n = 1")
    case True
    have "next_power_of_2 1 = 2 ^ 0" by (simp add: next_power_of_2_def)
    with True show ?thesis by (intro exI[of _ 0]) simp
  next
    case False
    with assms have m: "0 < n - 1" by simp
    then obtain h where h: "2 ^ h \<le> n - 1" "n - 1 < 2 ^ Suc h"
      using ex_top_bit by blast
    have "(2::int) ^ h < 2 ^ 31" using h(1) assms(2) by linarith
    from power_less_imp_less_exp[OF _ this] have h31: "h < 31" by simp
    have np: "next_power_of_2 n = 2 ^ Suc h"
      using next_power_of_2_above_top_bit[of h "n - 1"] h h31 by simp
    have le: "n \<le> 2 ^ Suc h" using h(2) by linarith
    have least: "(2::int) ^ Suc h \<le> 2 ^ j" if "n \<le> 2 ^ j" for j
    proof -
      from that h(1) have "(2::int) ^ h < 2 ^ j" by linarith
      then have "h < j" by simp
      then show ?thesis by (intro power_increasing) simp_all
    qed
    from np le least show ?thesis by (intro exI[of _ "Suc h"]) simp
  qed
  then obtain k where k: "next_power_of_2 n = 2 ^ k" "n \<le> 2 ^ k"
    "\<And>j. n \<le> 2 ^ j \<Longrightarrow> (2::int) ^ k \<le> 2 ^ j" by blast
  have "next_power_of_2 n = n \<longleftrightarrow> (\<exists>k. n = 2 ^ k)"
  proof
    assume "next_power_of_2 n = n"
    with k(1) show "\<exists>k. n = 2 ^ k" by auto
  next
    assume "\<exists>k. n = 2 ^ k"
    then obtain j where j: "n = 2 ^ j" by blast
    then have "(2::int) ^ k \<le> 2 ^ j" using k(3)[of j] by simp
    with k(1,2) j show "next_power_of_2 n = n" by simp
  qed
  with ex show ?thesis by blast
qed

theorem next_power_of_2_smallest_witness:
  "(1::int) \<le> 1000 \<and> (1000::int) \<le> 2 ^ 31
   \<and> (\<exists>k. next_power_of_2 1000 = 2 ^ k \<and> 1000 \<le> (2::int) ^ k \<and> (\<forall>j. 1000 \<le> (2::int) ^ j \<longrightarrow> (2::int) ^ k \<le> 2 ^ j))
   \<and> (next_power_of_2 1000 = 1000 \<longleftrightarrow> (\<exists>k. (1000::int) = 2 ^ k))
   \<and> next_power_of_2 1000 = 1024 \<and> next_power_of_2 1024 = 1024 \<and> next_power_of_2 (2 ^ 31) = 2 ^ 31"
  using next_power_of_2_smallest[of 1000] by (simp add: next_power_of_2_def)

section \<open>Properties of the lvalue assigner\<close>

lemmas assigner_defs =
  LValAssigner_VisitIdentifier_def LValAssigner_VisitObject_def LValAssigner_VisitUnaryOp_def
  LValAssigner_VisitBinaryOp_def

lemmas comp_defs =
  seq_def throwing_def set_ret_def get_ret_def set_rhs_def with_rhs_def get_assign_ret_def
  store_def

text \<open>
  C1. For every node whose kind is not an assignment target (conditional, function call,
  transposition, enumerator, constant, temporary, and every statement, function definition
  and translation unit), the assigner fails at once with the internal error
  \<^verbatim>\<open>"internal compiler error: <construct> cannot be lvalue"\<close>, which names the construct; this
  holds for the dispatch alone and through \<^verbatim>\<open>GenExpr\<close>. No store is emitted: the module is as
  before, and \<^verbatim>\<open>GenExpr\<close> has changed nothing but \<^verbatim>\<open>rhs_\<close>.
\<close>

theorem non_lvalue_rejected:
  assumes "rejected_kind n"
  shows "LValAssigner_Accept p n s =
           (Inl (Exception Runtime_error
                   (''internal compiler error: '' @ construct n @ '' cannot be lvalue'')), s)
         \<and> GenExpr p n rhs s =
           (Inl (Exception Runtime_error
                   (''internal compiler error: '' @ construct n @ '' cannot be lvalue'')),
            s\<lparr>assign_rhs := rhs\<rparr>)
         \<and> gen_mod (snd (GenExpr p n rhs s)) = gen_mod s"
  using assms by (cases n) (simp_all add: comp_defs should_not_happen_def)

theorem non_lvalue_rejected_witness:
  "rejected_kind (FuncCall ''f'' [Constant 1])
   \<and> LValAssigner_Accept sample (FuncCall ''f'' [Constant 1]) start =
       (Inl (Exception Runtime_error ''internal compiler error: funccall cannot be lvalue''), start)
   \<and> GenExpr sample (FuncCall ''f'' [Constant 1]) 7 start =
       (Inl (Exception Runtime_error ''internal compiler error: funccall cannot be lvalue''),
        start\<lparr>assign_rhs := 7\<rparr>)
   \<and> gen_mod (snd (GenExpr sample (FuncCall ''f'' [Constant 1]) 7 start)) = []"
  using non_lvalue_rejected[of "FuncCall ''f'' [Constant 1]" sample start 7]
  by (simp add: start_def)

lemma GenExpr_result:
  assumes "GenExpr p e rhs s = (Inr v, s')"
  shows "v = rhs \<and> (\<exists>addr pre. gen_mod s' = pre @ [Store addr rhs])"
  using assms
  by (cases e)
     (auto simp: comp_defs assigner_defs should_not_happen_def
           split: prod.splits sum.splits if_splits)

lemma Visit_Assign:
  "Visit p (BinaryOp Assign l r)
     = seq (seq (Visit p r) get_ret) (\<lambda>rhs. seq (GenAssignOp p l rhs) set_ret)"
  by simp

lemma seq_returns:
  assumes "seq c f s = (Inr b, s2)"
  obtains a s1 where "c s = (Inr a, s1)" and "f a s1 = (Inr b, s2)"
  using assms by (auto simp: seq_def split: prod.splits sum.splits)

lemma assignment_value:
  assumes "Visit p (BinaryOp Assign b c) s = (Inr (), s1)"
  shows "\<exists>addr pre. gen_mod s1 = pre @ [Store addr (gen_ret s1)]"
proof -
  from assms obtain rhs s0 where
    f: "seq (GenAssignOp p b rhs) set_ret s0 = (Inr (), s1)"
    unfolding Visit_Assign by (rule seq_returns)
  from f obtain v s2 where g: "GenAssignOp p b rhs s0 = (Inr v, s2)"
    and r: "set_ret v s2 = (Inr (), s1)" by (rule seq_returns)
  from g have "v = rhs \<and> (\<exists>addr pre. gen_mod s2 = pre @ [Store addr rhs])"
    using GenExpr_result[of p b rhs s0 v s2] by simp
  moreover from r have "s1 = s2\<lparr>gen_ret := v\<rparr>" by (simp add: set_ret_def)
  ultimately show ?thesis by simp
qed

lemma nested_assignment:
  assumes "Visit p (BinaryOp Assign b c) s = (Inr (), s1)"
  shows "Visit p (BinaryOp Assign a (BinaryOp Assign b c)) s
           = seq (GenAssignOp p a (gen_ret s1)) set_ret s1"
proof -
  have "seq (Visit p (BinaryOp Assign b c)) get_ret s = (Inr (gen_ret s1), s1)"
    using assms by (simp add: seq_def get_ret_def del: Visit.simps)
  then show ?thesis
    unfolding Visit_Assign[of p a] by (simp add: seq_def del: Visit.simps)
qed

lemma nested_assignment_aborts:
  assumes "Visit p (BinaryOp Assign b c) s = (Inl x, s1)"
  shows "Visit p (BinaryOp Assign a (BinaryOp Assign b c)) s = (Inl x, s1)"
proof -
  have "seq (Visit p (BinaryOp Assign b c)) get_ret s = (Inl x, s1)"
    using assms by (simp add: seq_def del: Visit.simps)
  then show ?thesis
    unfolding Visit_Assign[of p a] by (simp add: seq_def del: Visit.simps)
qed

lemma assign_named:
  assumes "lookup name (gen_scopes s) = Some loc"
  shows "GenExpr p (Identifier name) rhs s
           = (Inr rhs, s\<lparr>gen_mod := gen_mod s @ [Store loc rhs], assign_rhs := rhs, assign_ret := rhs\<rparr>)"
    and "GenExpr p (Object name) rhs s
           = (Inr rhs, s\<lparr>gen_mod := gen_mod s @ [Store loc rhs], assign_rhs := rhs, assign_ret := rhs\<rparr>)"
  using assms by (simp_all add: comp_defs assigner_defs bound_storage_def)

lemma chained_identifiers:
  assumes c: "Visit p c s = (Inr (), s1)"
    and b: "lookup nb (gen_scopes s1) = Some lb"
    and a: "lookup na (gen_scopes s1) = Some la"
  shows "Visit p (BinaryOp Assign (Identifier na) (BinaryOp Assign (Identifier nb) c)) s
            = (Inr (), s1\<lparr>gen_mod := gen_mod s1 @ [Store lb (gen_ret s1), Store la (gen_ret s1)],
                          assign_rhs := gen_ret s1, assign_ret := gen_ret s1\<rparr>)"
proof -
  let ?v = "gen_ret s1"
  let ?s2 = "s1\<lparr>gen_mod := gen_mod s1 @ [Store lb ?v], assign_rhs := ?v, assign_ret := ?v\<rparr>"
  have "seq (Visit p c) get_ret s = (Inr ?v, s1)"
    using c by (simp add: seq_def get_ret_def)
  then have "Visit p (BinaryOp Assign (Identifier nb) c) s
               = seq (GenAssignOp p (Identifier nb) ?v) set_ret s1"
    unfolding Visit_Assign[of p "Identifier nb"] by (simp add: seq_def)
  also have "\<dots> = (Inr (), ?s2)"
    using assign_named(1)[OF b, of p ?v]
    by (simp add: seq_def set_ret_def del: GenExpr.simps)
  finally have inner: "Visit p (BinaryOp Assign (Identifier nb) c) s = (Inr (), ?s2)" .
  have a2: "lookup na (gen_scopes ?s2) = Some la" using a by simp
  have "Visit p (BinaryOp Assign (Identifier na) (BinaryOp Assign (Identifier nb) c)) s
          = seq (GenAssignOp p (Identifier na) (gen_ret ?s2)) set_ret ?s2"
    using inner by (rule nested_assignment)
  also have "\<dots> = (Inr (), ?s2\<lparr>gen_mod := gen_mod ?s2 @ [Store la ?v], assign_rhs := ?v, assign_ret := ?v\<rparr>)"
    using assign_named(1)[OF a2, of p ?v]
    by (simp add: seq_def set_ret_def del: GenExpr.simps)
  finally show ?thesis by simp
qed

text \<open>
  C2. Whenever \<^verbatim>\<open>GenAssignOp\<close> returns, for any target and any right-hand value, it returns
  that value, and the last instruction of the module is a store of it. An assignment is
  itself a sub-expression: in \<^verbatim>\<open>a = (b = c)\<close> the inner assignment is lowered first; when it
  succeeds its store is the last instruction, its value is in the last-produced slot, and
  that value is what is assigned to \<^verbatim>\<open>a\<close>; when it throws, so does the whole expression. For
  two bound identifiers the module gains the store to \<^verbatim>\<open>b\<close> and then the store to \<^verbatim>\<open>a\<close>, both
  of the value of \<^verbatim>\<open>c\<close>, which is also the value of the whole expression.
\<close>

theorem assignment_yields_stored_value:
  "(GenAssignOp p lvalue rhs s = (Inr v, s')
      \<longrightarrow> v = rhs \<and> (\<exists>addr pre. gen_mod s' = pre @ [Store addr rhs]))
   \<and> (Visit p (BinaryOp Assign b c) s = (Inr (), s1)
      \<longrightarrow> (\<exists>addr pre. gen_mod s1 = pre @ [Store addr (gen_ret s1)])
          \<and> Visit p (BinaryOp Assign a (BinaryOp Assign b c)) s
              = seq (GenAssignOp p a (gen_ret s1)) set_ret s1)
   \<and> (Visit p (BinaryOp Assign b c) s = (Inl x, s1)
      \<longrightarrow> Visit p (BinaryOp Assign a (BinaryOp Assign b c)) s = (Inl x, s1))
   \<and> (Visit p c s = (Inr (), s1) \<and> lookup nb (gen_scopes s1) = Some lb
        \<and> lookup na (gen_scopes s1) = Some la
      \<longrightarrow> Visit p (BinaryOp Assign (Identifier na) (BinaryOp Assign (Identifier nb) c)) s
            = (Inr (), s1\<lparr>gen_mod := gen_mod s1 @ [Store lb (gen_ret s1), Store la (gen_ret s1)],
                          assign_rhs := gen_ret s1, assign_ret := gen_ret s1\<rparr>))"
proof (intro conjI impI)
  assume "GenAssignOp p lvalue rhs s = (Inr v, s')"
  then have g: "GenExpr p lvalue rhs s = (Inr v, s')" by simp
  from GenExpr_result[OF g] show "v = rhs" and "\<exists>addr pre. gen_mod s' = pre @ [Store addr rhs]"
    by blast+
next
  assume "Visit p (BinaryOp Assign b c) s = (Inr (), s1)"
  then show "\<exists>addr pre. gen_mod s1 = pre @ [Store addr (gen_ret s1)]"
    and "Visit p (BinaryOp Assign a (BinaryOp Assign b c)) s
              = seq (GenAssignOp p a (gen_ret s1)) set_ret s1"
    by (rule assignment_value, rule nested_assignment)
next
  assume "Visit p (BinaryOp Assign b c) s = (Inl x, s1)"
  then show "Visit p (BinaryOp Assign a (BinaryOp Assign b c)) s = (Inl x, s1)"
    by (rule nested_assignment_aborts)
next
  assume "Visit p c s = (Inr (), s1) \<and> lookup nb (gen_scopes s1) = Some lb
        \<and> lookup na (gen_scopes s1) = Some la"
  then show "Visit p (BinaryOp Assign (Identifier na) (BinaryOp Assign (Identifier nb) c)) s
            = (Inr (), s1\<lparr>gen_mod := gen_mod s1 @ [Store lb (gen_ret s1), Store la (gen_ret s1)],
                          assign_rhs := gen_ret s1, assign_ret := gen_ret s1\<rparr>)"
    using chained_identifiers by blast
qed

lemmas sample_defs = sample_def sample_visit_other_def sample_element_address_def start_def

theorem assignment_yields_stored_value_witness:
  "GenAssignOp sample (Identifier ''b'') 5 (start\<lparr>gen_ret := 5\<rparr>)
     = (Inr 5, start\<lparr>gen_ret := 5, gen_mod := [Store 11 5], assign_rhs := 5, assign_ret := 5\<rparr>)
   \<and> Visit sample (Constant 5) start = (Inr (), start\<lparr>gen_ret := 5\<rparr>)
   \<and> lookup ''b'' (gen_scopes (start\<lparr>gen_ret := 5\<rparr>)) = Some 11
   \<and> lookup ''a'' (gen_scopes (start\<lparr>gen_ret := 5\<rparr>)) = Some 10
   \<and> Visit sample (BinaryOp Assign (Identifier ''b'') (Constant 5)) start
     = (Inr (), start\<lparr>gen_ret := 5, gen_mod := [Store 11 5], assign_rhs := 5, assign_ret := 5\<rparr>)
   \<and> Visit sample (BinaryOp Assign (Identifier ''a'') (BinaryOp Assign (Identifier ''b'') (Constant 5)))
       start
     = (Inr (), start\<lparr>gen_ret := 5, gen_mod := [Store 11 5, Store 10 5], assign_rhs := 5,
                       assign_ret := 5\<rparr>)
   \<and> Visit sample (BinaryOp Assign (Constant 3) (Constant 5)) start
     = (Inl (Exception Runtime_error ''internal compiler error: constant cannot be lvalue''),
        start\<lparr>gen_ret := 5, assign_rhs := 5\<rparr>)
   \<and> Visit sample (BinaryOp Assign (Identifier ''a'') (BinaryOp Assign (Constant 3) (Constant 5)))
       start
     = (Inl (Exception Runtime_error ''internal compiler error: constant cannot be lvalue''),
        start\<lparr>gen_ret := 5, assign_rhs := 5\<rparr>)"
  using assignment_yields_stored_value[where p = sample and lvalue = "Identifier ''b''"
      and rhs = 5 and v = 5 and s = "start\<lparr>gen_ret := 5\<rparr>"
      and s' = "start\<lparr>gen_ret := 5, gen_mod := [Store 11 5], assign_rhs := 5, assign_ret := 5\<rparr>"]
    assignment_yields_stored_value[where p = sample and a = "Identifier ''a''"
      and b = "Identifier ''b''" and c = "Constant 5" and s = start
      and ?s1.0 = "start\<lparr>gen_ret := 5\<rparr>" and nb = "''b''" and lb = 11 and na = "''a''"
      and la = 10]
    assignment_yields_stored_value[where p = sample and a = "Identifier ''a''"
      and b = "Constant 3" and c = "Constant 5" and s = start
      and ?s1.0 = "start\<lparr>gen_ret := 5, assign_rhs := 5\<rparr>"
      and x = "Exception Runtime_error ''internal compiler error: constant cannot be lvalue''"]
  by (simp add: sample_defs comp_defs assigner_defs bound_storage_def should_not_happen_def)

lemma reject_not_assignable:
  assumes "\<not> assignable e"
  shows "\<exists>suffix. GenExpr p e rhs s =
           (Inl (Exception Runtime_error (''internal compiler error: '' @ suffix)),
            s\<lparr>assign_rhs := rhs\<rparr>)"
  using assms
  by (cases e) (simp_all add: comp_defs assigner_defs should_not_happen_def)

lemma assign_through_pointer:
  assumes "Visit p ptr (s\<lparr>assign_rhs := rhs\<rparr>) = (Inr (), s1)"
  shows "GenExpr p (UnaryOp Deref ptr) rhs s
           = (Inr rhs, s1\<lparr>gen_mod := gen_mod s1 @ [Store (gen_ret s1) rhs], assign_ret := rhs\<rparr>)"
  using assms by (simp add: comp_defs assigner_defs)

lemma assign_element:
  assumes "op = Member \<or> op = Index"
    and "Visit p base (s\<lparr>assign_rhs := rhs\<rparr>) = (Inr (), s1)"
    and "element_address p op (gen_ret s1) (Visit p idx) s1 = (Inr addr, s2)"
  shows "GenExpr p (BinaryOp op base idx) rhs s
           = (Inr rhs, s2\<lparr>gen_mod := gen_mod s2 @ [Store addr rhs], assign_ret := rhs\<rparr>)"
  using assms by (auto simp: comp_defs assigner_defs)

lemma assignable_forms:
  "assignable e \<longleftrightarrow>
     (\<exists>name. e = Identifier name \<or> e = Object name) \<or> (\<exists>ptr. e = UnaryOp Deref ptr)
     \<or> (\<exists>op base idx. e = BinaryOp op base idx \<and> (op = Member \<or> op = Index))"
  by (cases e) auto

text \<open>
  C3. The assigner accepts exactly an identifier, an object, a dereference and a member or
  index access. Every other node, a unary or binary operation with another operator
  included, raises an internal compiler error and emits nothing. For an accepted node the
  storage location is resolved and a store of the given value is emitted there, and that
  value is returned: for an identifier or an object bound in the scopes, the bound storage;
  for a dereference whose pointer lowers without an exception, the lowered pointer; for a
  member or index access whose base lowers and whose address computes, that address.
\<close>

theorem assigner_accepts_exactly_lvalues:
  "(\<not> assignable e \<longrightarrow>
      (\<exists>suffix. GenExpr p e rhs s =
         (Inl (Exception Runtime_error (''internal compiler error: '' @ suffix)),
          s\<lparr>assign_rhs := rhs\<rparr>)))
   \<and> (assignable e \<longleftrightarrow>
        (\<exists>name. e = Identifier name \<or> e = Object name) \<or> (\<exists>ptr. e = UnaryOp Deref ptr)
        \<or> (\<exists>op base idx. e = BinaryOp op base idx \<and> (op = Member \<or> op = Index)))
   \<and> (lookup name (gen_scopes s) = Some loc \<longrightarrow>
        GenExpr p (Identifier name) rhs s
          = (Inr rhs, s\<lparr>gen_mod := gen_mod s @ [Store loc rhs], assign_rhs := rhs, assign_ret := rhs\<rparr>)
        \<and> GenExpr p (Object name) rhs s
          = (Inr rhs, s\<lparr>gen_mod := gen_mod s @ [Store loc rhs], assign_rhs := rhs, assign_ret := rhs\<rparr>))
   \<and> (Visit p ptr (s\<lparr>assign_rhs := rhs\<rparr>) = (Inr (), s1) \<longrightarrow>
        GenExpr p (UnaryOp Deref ptr) rhs s
          = (Inr rhs, s1\<lparr>gen_mod := gen_mod s1 @ [Store (gen_ret s1) rhs], assign_ret := rhs\<rparr>))
   \<and> ((op = Member \<or> op = Index) \<and> Visit p base (s\<lparr>assign_rhs := rhs\<rparr>) = (Inr (), s2)
        \<and> element_address p op (gen_ret s2) (Visit p idx) s2 = (Inr addr, s3) \<longrightarrow>
        GenExpr p (BinaryOp op base idx) rhs s
          = (Inr rhs, s3\<lparr>gen_mod := gen_mod s3 @ [Store addr rhs], assign_ret := rhs\<rparr>))"
proof (intro conjI impI)
  assume "\<not> assignable e"
  then show "\<exists>suffix. GenExpr p e rhs s =
         (Inl (Exception Runtime_error (''internal compiler error: '' @ suffix)),
          s\<lparr>assign_rhs := rhs\<rparr>)"
    by (rule reject_not_assignable)
next
  show "assignable e \<longleftrightarrow>
        (\<exists>name. e = Identifier name \<or> e = Object name) \<or> (\<exists>ptr. e = UnaryOp Deref ptr)
        \<or> (\<exists>op base idx. e = BinaryOp op base idx \<and> (op = Member \<or> op = Index))"
    by (rule assignable_forms)
next
  assume l: "lookup name (gen_scopes s) = Some loc"
  show "GenExpr p (Identifier name) rhs s
          = (Inr rhs, s\<lparr>gen_mod := gen_mod s @ [Store loc rhs], assign_rhs := rhs, assign_ret := rhs\<rparr>)"
    using l by (rule assign_named(1))
  show "GenExpr p (Object name) rhs s
          = (Inr rhs, s\<lparr>gen_mod := gen_mod s @ [Store loc rhs], assign_rhs := rhs, assign_ret := rhs\<rparr>)"
    using l by (rule assign_named(2))
next
  assume "Visit p ptr (s\<lparr>assign_rhs := rhs\<rparr>) = (Inr (), s1)"
  then show "GenExpr p (UnaryOp Deref ptr) rhs s
          = (Inr rhs, s1\<lparr>gen_mod := gen_mod s1 @ [Store (gen_ret s1) rhs], assign_ret := rhs\<rparr>)"
    by (rule assign_through_pointer)
next
  assume "(op = Member \<or> op = Index) \<and> Visit p base (s\<lparr>assign_rhs := rhs\<rparr>) = (Inr (), s2)
        \<and> element_address p op (gen_ret s2) (Visit p idx) s2 = (Inr addr, s3)"
  then show "GenExpr p (BinaryOp op base idx) rhs s
          = (Inr rhs, s3\<lparr>gen_mod := gen_mod s3 @ [Store addr rhs], assign_ret := rhs\<rparr>)"
    using assign_element by blast
qed

theorem assigner_accepts_exactly_lvalues_witness:
  "\<not> assignable (UnaryOp Minus (Identifier ''p''))
   \<and> GenExpr sample (UnaryOp Minus (Identifier ''p'')) 5 start
       = (Inl (Exception Runtime_error ''internal compiler error: unaryop cannot be lvalue''),
          start\<lparr>assign_rhs := 5\<rparr>)
   \<and> lookup ''a'' (gen_scopes start) = Some 10
   \<and> GenExpr sample (Identifier ''a'') 5 start
       = (Inr 5, start\<lparr>gen_mod := [Store 10 5], assign_rhs := 5, assign_ret := 5\<rparr>)
   \<and> GenExpr sample (Object ''a'') 5 start
       = (Inr 5, start\<lparr>gen_mod := [Store 10 5], assign_rhs := 5, assign_ret := 5\<rparr>)
   \<and> Visit sample (Identifier ''p'') (start\<lparr>assign_rhs := 5\<rparr>)
       = (Inr (), start\<lparr>assign_rhs := 5, gen_ret := 12\<rparr>)
   \<and> GenExpr sample (UnaryOp Deref (Identifier ''p'')) 5 start
       = (Inr 5, start\<lparr>gen_ret := 12, gen_mod := [Store 12 5], assign_rhs := 5, assign_ret := 5\<rparr>)
   \<and> element_address sample Index 12 (Visit sample (Constant 3)) (start\<lparr>assign_rhs := 5, gen_ret := 12\<rparr>)
       = (Inr 15, start\<lparr>assign_rhs := 5, gen_ret := 3\<rparr>)
   \<and> GenExpr sample (BinaryOp Index (Identifier ''p'') (Constant 3)) 5 start
       = (Inr 5, start\<lparr>gen_ret := 3, gen_mod := [Store 15 5], assign_rhs := 5, assign_ret := 5\<rparr>)"
  using assigner_accepts_exactly_lvalues[where e = "UnaryOp Minus (Identifier ''p'')"
      and p = sample and rhs = 5 and s = start and name = "''a''" and loc = 10
      and ptr = "Identifier ''p''" and ?s1.0 = "start\<lparr>assign_rhs := 5, gen_ret := 12\<rparr>"
      and op = Index and base = "Identifier ''p''" and idx = "Constant 3"
      and ?s2.0 = "start\<lparr>assign_rhs := 5, gen_ret := 12\<rparr>" and addr = 15
      and ?s3.0 = "start\<lparr>assign_rhs := 5, gen_ret := 3\<rparr>"]
  by (simp add: sample_defs comp_defs assigner_defs bound_storage_def should_not_happen_def)

end
